theory Spec2Isabelle
  imports Complex_Main
begin

section \<open>Python values, errors and the wrapper's state\<close>

text \<open>
  The module \<open>util.py\<close> is dynamically typed: messages, message parts and the local
  server's responses are dictionaries and lists of strings. They are modelled by one
  datatype of Python values. A dictionary is an association list in insertion order (the
  order \<open>json.dumps\<close> prints). A Python \<open>str\<close> is a \<open>string\<close>, one \<open>char\<close> per code
  point, so the code points covered are those below 256.
\<close>

datatype pyval =
    PNone
  | PBool bool
  | PInt int
  | PStr string
  | PList "pyval list"
  | PDict "(string \<times> pyval) list"

type_synonym pydict = "(string \<times> pyval) list"

text \<open>The exceptions the module raises or lets through.\<close>

datatype error =
    KeyError
  | TypeError
  | IndexError
  | AttributeError
  | AssertionError
  | ValueError string
  | BackendError string

text \<open>\<open>self.stats\<close>: a dictionary with three fixed keys holding Python integers.\<close>

record stats_dict =
  requests :: int
  input_tokens :: int
  completion_tokens :: int

text \<open>
  The fields of a wrapper object. \<open>self.client\<close> is the connection to the backend: what it
  answers is not a function of the wrapper's fields, so each operation below takes the
  backend's behaviour at that call as an argument.
\<close>

record model_wrapper =
  model_name :: string
  log_file :: "string option"
  stats :: stats_dict

text \<open>\<open>ModelWrapper.__init__\<close>: the three counters start at zero.\<close>

definition ModelWrapper :: "string \<Rightarrow> string option \<Rightarrow> model_wrapper" where
  "ModelWrapper name lf =
     \<lparr>model_name = name, log_file = lf,
      stats = \<lparr>requests = 0, input_tokens = 0, completion_tokens = 0\<rparr>\<rparr>"

text \<open>
  The constructors of the three variants make their client and call
  \<open>ModelWrapper.__init__\<close>; the model name defaults to \<open>gpt-4o\<close> for the hosted and
  the gateway variant and to \<open>minicpm-v\<close> for the local one, the log file to \<open>None\<close>.
\<close>

definition OpenAIModelWrapper :: "string \<Rightarrow> string option \<Rightarrow> model_wrapper" where
  "OpenAIModelWrapper name lf = ModelWrapper name lf"

definition AzureModelWrapper :: "string \<Rightarrow> string option \<Rightarrow> model_wrapper" where
  "AzureModelWrapper name lf = ModelWrapper name lf"

definition OllamaModelWrapper :: "string \<Rightarrow> string option \<Rightarrow> model_wrapper" where
  "OllamaModelWrapper name lf = ModelWrapper name lf"

section \<open>Cost computation\<close>

text \<open>Python's \<open>sub in s\<close> on strings: \<open>sub\<close> occurs in \<open>s\<close> as a contiguous block.\<close>

definition starts_with :: "string \<Rightarrow> string \<Rightarrow> bool" where
  "starts_with sub s = (take (length sub) s = sub)"

primrec contains :: "string \<Rightarrow> string \<Rightarrow> bool" where
  "contains sub [] = (sub = [])"
| "contains sub (c # cs) = (starts_with sub (c # cs) \<or> contains sub cs)"

text \<open>
  \<open>ModelWrapper.compute_cost\<close>. Both prices are \<open>Optional[float]\<close>. Python floats are
  modelled by \<open>real\<close>: the products and the sum are exact here and rounded in Python; no
  statement below compares two differently computed numbers.

  The explicit check (\<open>assert output_token_cost is None\<close>) stands only in the branch where
  the input price is absent. With an input price and no output price the code goes on to
  \<open>self.stats["completion_tokens"] * None\<close>, which raises \<open>TypeError\<close>.
\<close>

definition unknown_model_message :: "string \<Rightarrow> string" where
  "unknown_model_message name =
     ''Unknown model name: '' @ name @ ''. Please provide input_token_cost and output_token_cost.''"

definition compute_cost :: "model_wrapper \<Rightarrow> real option \<Rightarrow> real option \<Rightarrow> error + real" where
  "compute_cost w input_token_cost output_token_cost =
     (case
        (case input_token_cost of
           None \<Rightarrow>
             (if output_token_cost \<noteq> None then Inl AssertionError
              else if contains ''gpt-4o'' (model_name w) then
                (if contains ''mini'' (model_name w) then
                   Inr (0.000165 / 1000, Some (0.00066 / 1000))
                 else if contains ''2024-08-06'' (model_name w) then
                   Inr (0.0025 / 1000, Some (0.010 / 1000))
                 else
                   Inr (0.005 / 1000, Some (0.015 / 1000)))
              else if contains ''gpt-35'' (model_name w) then
                Inr (0.0005 / 1000, Some (0.0015 / 1000))
              else Inl (ValueError (unknown_model_message (model_name w))))
         | Some in_cost \<Rightarrow> Inr (in_cost, output_token_cost))
      of
        Inl e \<Rightarrow> Inl e
      | Inr (in_cost, None) \<Rightarrow> Inl TypeError
      | Inr (in_cost, Some out_cost) \<Rightarrow>
          Inr (of_int (input_tokens (stats w)) * in_cost
               + of_int (completion_tokens (stats w)) * out_cost))"

section \<open>Message adapters of the local-inference wrapper\<close>

text \<open>
  \<open>v[k]\<close> for a string key \<open>k\<close>: a dictionary without the key raises \<open>KeyError\<close>; a
  list or a string wants integer indices and any other value is not subscriptable, both
  \<open>TypeError\<close>.
\<close>

fun subscript :: "pyval \<Rightarrow> string \<Rightarrow> error + pyval" where
  "subscript (PDict d) k = (case map_of d k of None \<Rightarrow> Inl KeyError | Some v \<Rightarrow> Inr v)"
| "subscript _ k = Inl TypeError"

text \<open>
  \<open>for m in v\<close>: a list gives its elements, a string its one-character strings, a
  dictionary its keys; nothing else is iterable.
\<close>

fun iterate :: "pyval \<Rightarrow> error + pyval list" where
  "iterate (PList xs) = Inr xs"
| "iterate (PStr s) = Inr (map (\<lambda>c. PStr [c]) s)"
| "iterate (PDict d) = Inr (map (\<lambda>kv. PStr (fst kv)) d)"
| "iterate _ = Inl TypeError"

text \<open>\<open>d[k] = v\<close>: an existing key keeps its place, a new key goes to the end.\<close>

fun dict_set :: "pydict \<Rightarrow> string \<Rightarrow> pyval \<Rightarrow> pydict" where
  "dict_set [] k v = [(k, v)]"
| "dict_set ((k', v') # d) k v =
     (if k' = k then (k, v) # d else (k', v') # dict_set d k v)"

text \<open>
  One item \<open>m['type'] : m[m['type']]\<close> of the dictionary comprehension. The keys of the
  dictionaries modelled here are strings, so a \<open>type\<close> that is not a string is a missing
  key, or an unhashable one when it is a list or a dictionary.
\<close>

definition part_item :: "pyval \<Rightarrow> error + (string \<times> pyval)" where
  "part_item m =
     (case subscript m ''type'' of
        Inl e \<Rightarrow> Inl e
      | Inr t \<Rightarrow>
          (case t of
             PStr k \<Rightarrow> (case subscript m k of Inl e \<Rightarrow> Inl e | Inr v \<Rightarrow> Inr (k, v))
           | PList _ \<Rightarrow> Inl TypeError
           | PDict _ \<Rightarrow> Inl TypeError
           | _ \<Rightarrow> Inl KeyError))"

text \<open>The comprehension \<open>{... for m in parts}\<close>: a later part of a type replaces an earlier one.\<close>

fun parts_dict :: "pyval list \<Rightarrow> pydict \<Rightarrow> error + pydict" where
  "parts_dict [] acc = Inr acc"
| "parts_dict (m # ms) acc =
     (case part_item m of
        Inl e \<Rightarrow> Inl e
      | Inr (k, v) \<Rightarrow> parts_dict ms (dict_set acc k v))"

text \<open>
  The slice \<open>v[n:]\<close> of a string or a list. On a dictionary a slice is an unhashable key
  (\<open>TypeError\<close> up to Python 3.11); other values are not subscriptable.
\<close>

fun slice_from :: "nat \<Rightarrow> pyval \<Rightarrow> error + pyval" where
  "slice_from n (PStr s) = Inr (PStr (drop n s))"
| "slice_from n (PList xs) = Inr (PList (drop n xs))"
| "slice_from n _ = Inl TypeError"

text \<open>
  The body of the loop of \<open>OllamaModelWrapper._ollama_reformat_messages\<close> for one message.
  The image is the url with its first 22 characters cut off, whatever they are.
\<close>

definition ollama_reformat_one :: "pyval \<Rightarrow> error + pyval" where
  "ollama_reformat_one msg_raw =
     (case subscript msg_raw ''content'' of Inl e \<Rightarrow> Inl e | Inr content \<Rightarrow>
     (case iterate content of Inl e \<Rightarrow> Inl e | Inr parts \<Rightarrow>
     (case parts_dict parts [] of Inl e \<Rightarrow> Inl e | Inr msg \<Rightarrow>
     (case subscript msg_raw ''role'' of Inl e \<Rightarrow> Inl e | Inr role \<Rightarrow>
     (case map_of msg ''text'' of None \<Rightarrow> Inl KeyError | Some text \<Rightarrow>
     (case map_of msg ''image_url'' of
        None \<Rightarrow> Inr (PDict [(''role'', role), (''content'', text)])
      | Some image_url \<Rightarrow>
         (case subscript image_url ''url'' of Inl e \<Rightarrow> Inl e | Inr url \<Rightarrow>
         (case slice_from 22 url of Inl e \<Rightarrow> Inl e | Inr payload \<Rightarrow>
            Inr (PDict (dict_set [(''role'', role), (''content'', text)] ''images''
                          (PList [payload])))))))))))"

text \<open>\<open>OllamaModelWrapper._ollama_reformat_messages\<close>: the loop over the messages.\<close>

fun ollama_reformat_messages :: "pyval list \<Rightarrow> error + pyval list" where
  "ollama_reformat_messages [] = Inr []"
| "ollama_reformat_messages (msg_raw # rest) =
     (case ollama_reformat_one msg_raw of Inl e \<Rightarrow> Inl e | Inr o_msg \<Rightarrow>
     (case ollama_reformat_messages rest of Inl e \<Rightarrow> Inl e | Inr o_messages \<Rightarrow>
        Inr (o_msg # o_messages)))"

text \<open>
  \<open>OllamaModelWrapper._openai_reformat_messages\<close>: the role of the argument, and its
  content put into a new text part. Nothing tests what shape the argument has.
\<close>

definition openai_reformat_messages :: "pyval \<Rightarrow> error + pyval" where
  "openai_reformat_messages ollama_msg =
     (case subscript ollama_msg ''role'' of Inl e \<Rightarrow> Inl e | Inr role \<Rightarrow>
     (case subscript ollama_msg ''content'' of Inl e \<Rightarrow> Inl e | Inr content \<Rightarrow>
        Inr (PDict [(''role'', role),
                    (''content'', PDict [(''type'', PStr ''text''), (''text'', content)])])))"

section \<open>The completion log\<close>

text \<open>
  \<open>json.dumps\<close> with its default settings, on the values above: separators \<open>", "\<close> and
  \<open>": "\<close>, no indentation, and \<open>ensure_ascii\<close>, under which a string is printed between
  double quotes with the quote, the backslash and every character outside the printable
  ASCII range escaped.
\<close>

definition hex_digit :: "nat \<Rightarrow> char" where
  "hex_digit n = ''0123456789abcdef'' ! (n mod 16)"

definition escape_char :: "char \<Rightarrow> string" where
  "escape_char c =
     (if c = CHR 0x22 then [CHR 0x5C, CHR 0x22]
      else if c = CHR 0x5C then [CHR 0x5C, CHR 0x5C]
      else if c = CHR 0x0A then [CHR 0x5C, CHR ''n'']
      else if c = CHR 0x0D then [CHR 0x5C, CHR ''r'']
      else if c = CHR 0x09 then [CHR 0x5C, CHR ''t'']
      else if c = CHR 0x0C then [CHR 0x5C, CHR ''f'']
      else if c = CHR 0x08 then [CHR 0x5C, CHR ''b'']
      else if 0x20 \<le> (of_char c :: nat) \<and> (of_char c :: nat) \<le> 0x7E then [c]
      else [CHR 0x5C, CHR ''u'',
            hex_digit (of_char c div 4096), hex_digit (of_char c div 256),
            hex_digit (of_char c div 16), hex_digit (of_char c)])"

definition encode_basestring_ascii :: "string \<Rightarrow> string" where
  "encode_basestring_ascii s = CHR 0x22 # concat (map escape_char s) @ [CHR 0x22]"

text \<open>\<open>str(n)\<close> for an integer: decimal digits, with a minus sign when negative.\<close>

fun str_nat :: "nat \<Rightarrow> string" where
  "str_nat n = (if n < 10 then [hex_digit n] else str_nat (n div 10) @ [hex_digit (n mod 10)])"

declare str_nat.simps [simp del]

definition str_int :: "int \<Rightarrow> string" where
  "str_int i = (if i < 0 then CHR ''-'' # str_nat (nat (- i)) else str_nat (nat i))"

text \<open>\<open>sep.join(xs)\<close>.\<close>

fun join :: "string \<Rightarrow> string list \<Rightarrow> string" where
  "join sep [] = []"
| "join sep [x] = x"
| "join sep (x # y # ys) = x @ sep @ join sep (y # ys)"

fun json_dumps :: "pyval \<Rightarrow> string" where
  "json_dumps PNone = ''null''"
| "json_dumps (PBool b) = (if b then ''true'' else ''false'')"
| "json_dumps (PInt i) = str_int i"
| "json_dumps (PStr s) = encode_basestring_ascii s"
| "json_dumps (PList xs) = ''['' @ join '', '' (map json_dumps xs) @ '']''"
| "json_dumps (PDict d) =
     ''{'' @ join '', '' (map (\<lambda>kv. encode_basestring_ascii (fst kv) @ '': '' @ json_dumps (snd kv)) d)
     @ ''}''"

text \<open>
  The files: a path to its text. \<open>open(path, "a")\<close> followed by \<open>f.write(text)\<close> creates a
  missing file and puts \<open>text\<close> after what the file holds. (That the file cannot be opened
  is not modelled.)
\<close>

type_synonym filesystem = "string \<rightharpoonup> string"

definition append_file :: "filesystem \<Rightarrow> string \<Rightarrow> string \<Rightarrow> filesystem" where
  "append_file fs path txt =
     fs(path \<mapsto> (case fs path of None \<Rightarrow> [] | Some old \<Rightarrow> old) @ txt)"

text \<open>
  The lines of a text, for stating what a log file holds: a line ends at each newline
  character, and a rest without a newline is a last line.
\<close>

fun lines_from :: "string \<Rightarrow> string \<Rightarrow> string list" where
  "lines_from cur [] = (if cur = [] then [] else [cur])"
| "lines_from cur (c # cs) =
     (if c = CHR 0x0A then cur # lines_from [] cs else lines_from (cur @ [c]) cs)"

definition file_lines :: "string \<Rightarrow> string list" where
  "file_lines txt = lines_from [] txt"

section \<open>The hosted-API wrapper\<close>

text \<open>
  What the methods read of the hosted backend's answer: \<open>response.usage\<close> with its two
  token counts (the field is optional in the client library), and
  \<open>response.choices[0].message\<close>, an object given by its fields; \<open>.dict()\<close> is the
  dictionary of these fields. A chunk of a streamed answer has \<open>choices[0].delta\<close>.
\<close>

record usage =
  prompt_tokens :: int
  usage_completion_tokens :: int

record choice =
  message :: pydict

record chat_completion =
  choices :: "choice list"
  usage :: "usage option"

record chunk_choice =
  delta :: pydict

record chat_completion_chunk =
  chunk_choices :: "chunk_choice list"

text \<open>
  The backend at one call: \<open>client.chat.completions.create\<close> without and with
  \<open>stream=True\<close>, and \<open>client.beta.chat.completions.parse\<close>. The arguments are the model
  name, the messages and the keyword arguments (for \<open>parse\<close> the structure class, by
  name); the result is an exception or the answer.
\<close>

type_synonym chat_create = "string \<Rightarrow> pyval list \<Rightarrow> pydict \<Rightarrow> error + chat_completion"
type_synonym chat_stream = "string \<Rightarrow> pyval list \<Rightarrow> pydict \<Rightarrow> error + chat_completion_chunk list"
type_synonym chat_parse = "string \<Rightarrow> pyval list \<Rightarrow> string \<Rightarrow> error + chat_completion"

text \<open>The state an operation works on: the wrapper object and the files.\<close>

type_synonym state = "model_wrapper \<times> filesystem"

text \<open>Reading a field of an object.\<close>

definition getattr :: "pydict \<Rightarrow> string \<Rightarrow> error + pyval" where
  "getattr obj name = (case map_of obj name of None \<Rightarrow> Inl AttributeError | Some v \<Rightarrow> Inr v)"

text \<open>
  A call \<open>f(model=..., messages=..., **kwargs)\<close> raises \<open>TypeError\<close> when \<open>kwargs\<close> holds
  one of the keywords already given.
\<close>

definition keyword_clash :: "string list \<Rightarrow> pydict \<Rightarrow> bool" where
  "keyword_clash names kwargs = list_ex (\<lambda>k. k \<in> set (map fst kwargs)) names"

text \<open>The line written to the log: \<open>json.dumps(msg_copy) + ",\n"\<close>.\<close>

definition log_line :: "pyval list \<Rightarrow> string" where
  "log_line msg_copy = json_dumps (PList msg_copy) @ [CHR '','', CHR 0x0A]"

text \<open>
  \<open>ModelWrapper.complete\<close>. The three counters are updated one after the other, so an
  exception in between leaves the earlier updates in place; the result is the state
  reached and the exception or the returned value. \<open>response.choices[0]\<close> is read in the
  logging block and again for the returned value; without a choice either read raises
  \<open>IndexError\<close> in the same state, so the model reads it once.
\<close>

definition complete ::
  "chat_create \<Rightarrow> state \<Rightarrow> pyval list \<Rightarrow> pydict \<Rightarrow> state \<times> (error + pyval)" where
  "complete create s messages kwargs =
     (case s of (w, fs) \<Rightarrow>
      if keyword_clash [''model'', ''messages''] kwargs then (s, Inl TypeError)
      else
     (case create (model_name w) messages kwargs of
        Inl e \<Rightarrow> (s, Inl e)
      | Inr response \<Rightarrow>
     (let st1 = (stats w)\<lparr>requests := requests (stats w) + 1\<rparr> in
      case usage response of
        None \<Rightarrow> ((w\<lparr>stats := st1\<rparr>, fs), Inl AttributeError)
      | Some u \<Rightarrow>
     (let st2 = st1\<lparr>input_tokens := input_tokens st1 + prompt_tokens u\<rparr>;
          st3 = st2\<lparr>completion_tokens := completion_tokens st2 + usage_completion_tokens u\<rparr>;
          w' = w\<lparr>stats := st3\<rparr>
      in
      case choices response of
        [] \<Rightarrow> ((w', fs), Inl IndexError)
      | c # _ \<Rightarrow>
     (case log_file w of
        None \<Rightarrow> ((w', fs), getattr (message c) ''content'')
      | Some path \<Rightarrow>
          ((w', append_file fs path (log_line (messages @ [PDict (message c)]))),
           getattr (message c) ''content''))))))"

text \<open>
  \<open>stream_wrapper\<close>: a generator over the chunks; consumed to its end it has yielded the
  fragments up to the first chunk it cannot read.
\<close>

fun stream_wrapper :: "chat_completion_chunk list \<Rightarrow> pyval list \<times> error option" where
  "stream_wrapper [] = ([], None)"
| "stream_wrapper (response # rest) =
     (case chunk_choices response of
        [] \<Rightarrow> ([], Some IndexError)
      | c # _ \<Rightarrow>
     (case getattr (delta c) ''content'' of
        Inl e \<Rightarrow> ([], Some e)
      | Inr fragment \<Rightarrow>
     (case stream_wrapper rest of (fragments, err) \<Rightarrow> (fragment # fragments, err))))"

text \<open>\<open>ModelWrapper.stream_complete\<close>, with the returned generator consumed.\<close>

definition stream_complete ::
  "chat_stream \<Rightarrow> state \<Rightarrow> pyval list \<Rightarrow> pydict
     \<Rightarrow> state \<times> (error + pyval list \<times> error option)" where
  "stream_complete create s messages kwargs =
     (case s of (w, fs) \<Rightarrow>
      if keyword_clash [''model'', ''messages'', ''stream''] kwargs then (s, Inl TypeError)
      else
     (case create (model_name w) messages kwargs of
        Inl e \<Rightarrow> (s, Inl e)
      | Inr response \<Rightarrow> (s, Inr (stream_wrapper response))))"

text \<open>
  \<open>ModelWrapper.structured_complete\<close>: the keyword arguments are accepted and not passed
  on; the value returned is the message itself.
\<close>

definition structured_complete ::
  "chat_parse \<Rightarrow> state \<Rightarrow> pyval list \<Rightarrow> string \<Rightarrow> pydict \<Rightarrow> state \<times> (error + pyval)" where
  "structured_complete parse s messages structure_class kwargs =
     (case s of (w, fs) \<Rightarrow>
     (case parse (model_name w) messages structure_class of
        Inl e \<Rightarrow> (s, Inl e)
      | Inr response \<Rightarrow>
     (let st1 = (stats w)\<lparr>requests := requests (stats w) + 1\<rparr> in
      case usage response of
        None \<Rightarrow> ((w\<lparr>stats := st1\<rparr>, fs), Inl AttributeError)
      | Some u \<Rightarrow>
     (let st2 = st1\<lparr>input_tokens := input_tokens st1 + prompt_tokens u\<rparr>;
          st3 = st2\<lparr>completion_tokens := completion_tokens st2 + usage_completion_tokens u\<rparr>;
          w' = w\<lparr>stats := st3\<rparr>
      in
      case choices response of
        [] \<Rightarrow> ((w', fs), Inl IndexError)
      | c # _ \<Rightarrow>
     (case log_file w of
        None \<Rightarrow> ((w', fs), Inr (PDict (message c)))
      | Some path \<Rightarrow>
          ((w', append_file fs path (log_line (messages @ [PDict (message c)]))),
           Inr (PDict (message c))))))))"

section \<open>The local-inference wrapper\<close>

text \<open>
  The local server's answer and the chunks of its stream are read by subscripts, so they
  are Python values. \<open>client.chat\<close> without and with \<open>stream=True\<close>:
\<close>

type_synonym ollama_chat = "string \<Rightarrow> pyval list \<Rightarrow> pydict \<Rightarrow> error + pyval"
type_synonym ollama_chat_stream = "string \<Rightarrow> pyval list \<Rightarrow> pydict \<Rightarrow> error + pyval list"

text \<open>The right operand of \<open>+=\<close> on an integer counter (a \<open>bool\<close> is an \<open>int\<close> in Python).\<close>

fun int_operand :: "pyval \<Rightarrow> error + int" where
  "int_operand (PInt n) = Inr n"
| "int_operand (PBool b) = Inr (if b then 1 else 0)"
| "int_operand _ = Inl TypeError"

text \<open>
  \<open>OllamaModelWrapper.complete\<close>. Both token counters are increased by
  \<open>response['eval_count']\<close>; no other count of the answer is read.
\<close>

definition ollama_complete ::
  "ollama_chat \<Rightarrow> state \<Rightarrow> pyval list \<Rightarrow> pydict \<Rightarrow> state \<times> (error + pyval)" where
  "ollama_complete chat s messages kwargs =
     (case s of (w, fs) \<Rightarrow>
     (case ollama_reformat_messages messages of
        Inl e \<Rightarrow> (s, Inl e)
      | Inr ollama_messages \<Rightarrow>
      if keyword_clash [''model'', ''messages''] kwargs then (s, Inl TypeError)
      else
     (case chat (model_name w) ollama_messages kwargs of
        Inl e \<Rightarrow> (s, Inl e)
      | Inr response \<Rightarrow>
     (case subscript response ''message'' of
        Inl e \<Rightarrow> (s, Inl e)
      | Inr resp_msg \<Rightarrow>
     (case subscript resp_msg ''content'' of
        Inl e \<Rightarrow> (s, Inl e)
      | Inr resp_content \<Rightarrow>
     (let st1 = (stats w)\<lparr>requests := requests (stats w) + 1\<rparr> in
      case subscript response ''eval_count'' of
        Inl e \<Rightarrow> ((w\<lparr>stats := st1\<rparr>, fs), Inl e)
      | Inr eval_count \<Rightarrow>
     (case int_operand eval_count of
        Inl e \<Rightarrow> ((w\<lparr>stats := st1\<rparr>, fs), Inl e)
      | Inr n \<Rightarrow>
     (let st2 = st1\<lparr>input_tokens := input_tokens st1 + n\<rparr>;
          st3 = st2\<lparr>completion_tokens := completion_tokens st2 + n\<rparr>;
          w' = w\<lparr>stats := st3\<rparr>
      in
      case log_file w of
        None \<Rightarrow> ((w', fs), Inr resp_content)
      | Some path \<Rightarrow>
     (case openai_reformat_messages resp_msg of
        Inl e \<Rightarrow> ((w', fs), Inl e)
      | Inr openai_msg \<Rightarrow>
          ((w', append_file fs path (log_line (messages @ [openai_msg]))),
           Inr resp_content))))))))))"

text \<open>
  \<open>OllamaModelWrapper.stream_complete\<close> is itself a generator: consumed to its end it has
  adapted the messages, made the call and yielded \<open>chunk['message']['content']\<close> of each
  chunk up to the first one it cannot read.
\<close>

fun ollama_chunks :: "pyval list \<Rightarrow> pyval list \<times> error option" where
  "ollama_chunks [] = ([], None)"
| "ollama_chunks (chunk # rest) =
     (case subscript chunk ''message'' of
        Inl e \<Rightarrow> ([], Some e)
      | Inr m \<Rightarrow>
     (case subscript m ''content'' of
        Inl e \<Rightarrow> ([], Some e)
      | Inr fragment \<Rightarrow>
     (case ollama_chunks rest of (fragments, err) \<Rightarrow> (fragment # fragments, err))))"

definition ollama_stream_complete ::
  "ollama_chat_stream \<Rightarrow> state \<Rightarrow> pyval list \<Rightarrow> pydict \<Rightarrow> state \<times> (pyval list \<times> error option)" where
  "ollama_stream_complete chat s messages kwargs =
     (case s of (w, fs) \<Rightarrow>
     (case ollama_reformat_messages messages of
        Inl e \<Rightarrow> (s, ([], Some e))
      | Inr ollama_messages \<Rightarrow>
      if keyword_clash [''model'', ''messages'', ''stream''] kwargs then (s, ([], Some TypeError))
      else
     (case chat (model_name w) ollama_messages kwargs of
        Inl e \<Rightarrow> (s, ([], Some e))
      | Inr stream \<Rightarrow> (s, ollama_chunks stream))))"

text \<open>
  \<open>structured_complete\<close> is inherited from \<open>ModelWrapper\<close> and starts with
  \<open>self.client.beta\<close>, an attribute the local client does not have.
\<close>

definition ollama_structured_complete ::
  "state \<Rightarrow> pyval list \<Rightarrow> string \<Rightarrow> pydict \<Rightarrow> state \<times> (error + pyval)" where
  "ollama_structured_complete s messages structure_class kwargs = (s, Inl AttributeError)"

section \<open>Sequences of calls\<close>

text \<open>
  The calls made on one hosted-API wrapper, each with the backend's behaviour at that
  call, and the state after a sequence of them. A call has returned when it ends with a
  value and not with an exception.
\<close>

datatype call =
    Complete chat_create "pyval list" pydict
  | StreamComplete chat_stream "pyval list" pydict
  | StructuredComplete chat_parse "pyval list" string pydict

definition returned :: "error + 'a \<Rightarrow> bool" where
  "returned r = (case r of Inl e \<Rightarrow> False | Inr v \<Rightarrow> True)"

fun perform :: "state \<Rightarrow> call \<Rightarrow> state \<times> bool" where
  "perform s (Complete create messages kwargs) =
     (case complete create s messages kwargs of (s', r) \<Rightarrow> (s', returned r))"
| "perform s (StreamComplete create messages kwargs) =
     (case stream_complete create s messages kwargs of (s', r) \<Rightarrow> (s', returned r))"
| "perform s (StructuredComplete parse messages structure_class kwargs) =
     (case structured_complete parse s messages structure_class kwargs of
        (s', r) \<Rightarrow> (s', returned r))"

fun run :: "state \<Rightarrow> call list \<Rightarrow> state" where
  "run s [] = s"
| "run s (c # cs) = run (fst (perform s c)) cs"

fun is_stream :: "call \<Rightarrow> bool" where
  "is_stream (StreamComplete create messages kwargs) = True"
| "is_stream c = False"

text \<open>Every call of the sequence that is not a streaming call has returned.\<close>

fun all_returned :: "state \<Rightarrow> call list \<Rightarrow> bool" where
  "all_returned s [] = True"
| "all_returned s (c # cs) =
     ((is_stream c \<or> snd (perform s c)) \<and> all_returned (fst (perform s c)) cs)"

text \<open>
  The usage the backend reports at a call when asked with the model name \<open>name\<close>; a
  streaming call reads no usage.
\<close>

fun reported_usage :: "string \<Rightarrow> call \<Rightarrow> usage option" where
  "reported_usage name (Complete create messages kwargs) =
     (case create name messages kwargs of Inl e \<Rightarrow> None | Inr response \<Rightarrow> usage response)"
| "reported_usage name (StreamComplete create messages kwargs) = None"
| "reported_usage name (StructuredComplete parse messages structure_class kwargs) =
     (case parse name messages structure_class of Inl e \<Rightarrow> None | Inr response \<Rightarrow> usage response)"

definition reported_prompt_tokens :: "string \<Rightarrow> call \<Rightarrow> int" where
  "reported_prompt_tokens name c =
     (case reported_usage name c of None \<Rightarrow> 0 | Some u \<Rightarrow> prompt_tokens u)"

definition reported_completion_tokens :: "string \<Rightarrow> call \<Rightarrow> int" where
  "reported_completion_tokens name c =
     (case reported_usage name c of None \<Rightarrow> 0 | Some u \<Rightarrow> usage_completion_tokens u)"

text \<open>The same for the local-inference wrapper; the count it reads is \<open>eval_count\<close>.\<close>

datatype ollama_call =
    OllamaComplete ollama_chat "pyval list" pydict
  | OllamaStreamComplete ollama_chat_stream "pyval list" pydict
  | OllamaStructuredComplete "pyval list" string pydict

fun ollama_perform :: "state \<Rightarrow> ollama_call \<Rightarrow> state \<times> bool" where
  "ollama_perform s (OllamaComplete chat messages kwargs) =
     (case ollama_complete chat s messages kwargs of (s', r) \<Rightarrow> (s', returned r))"
| "ollama_perform s (OllamaStreamComplete chat messages kwargs) =
     (case ollama_stream_complete chat s messages kwargs of
        (s', fragments, err) \<Rightarrow> (s', err = None))"
| "ollama_perform s (OllamaStructuredComplete messages structure_class kwargs) =
     (case ollama_structured_complete s messages structure_class kwargs of
        (s', r) \<Rightarrow> (s', returned r))"

fun ollama_run :: "state \<Rightarrow> ollama_call list \<Rightarrow> state" where
  "ollama_run s [] = s"
| "ollama_run s (c # cs) = ollama_run (fst (ollama_perform s c)) cs"

fun ollama_is_stream :: "ollama_call \<Rightarrow> bool" where
  "ollama_is_stream (OllamaStreamComplete chat messages kwargs) = True"
| "ollama_is_stream c = False"

fun ollama_all_returned :: "state \<Rightarrow> ollama_call list \<Rightarrow> bool" where
  "ollama_all_returned s [] = True"
| "ollama_all_returned s (c # cs) =
     ((ollama_is_stream c \<or> snd (ollama_perform s c))
      \<and> ollama_all_returned (fst (ollama_perform s c)) cs)"

definition eval_count_of :: "pyval \<Rightarrow> error + int" where
  "eval_count_of response =
     (case subscript response ''eval_count'' of Inl e \<Rightarrow> Inl e | Inr v \<Rightarrow> int_operand v)"

fun reported_eval_count :: "string \<Rightarrow> ollama_call \<Rightarrow> int" where
  "reported_eval_count name (OllamaComplete chat messages kwargs) =
     (case ollama_reformat_messages messages of
        Inl e \<Rightarrow> 0
      | Inr ollama_messages \<Rightarrow>
     (case chat name ollama_messages kwargs of
        Inl e \<Rightarrow> 0
      | Inr response \<Rightarrow>
     (case eval_count_of response of Inl e \<Rightarrow> 0 | Inr n \<Rightarrow> n)))"
| "reported_eval_count name c = 0"

section \<open>Properties of the cost computation\<close>

text \<open>
  C2. With both prices supplied, \<open>compute_cost\<close> returns
  \<open>input_tokens * p_in + completion_tokens * p_out\<close> of the wrapper's counters, whatever the
  model name is (also one the price table does not know).
\<close>

theorem compute_cost_explicit_prices:
  "compute_cost w (Some p_in) (Some p_out) =
     Inr (of_int (input_tokens (stats w)) * p_in + of_int (completion_tokens (stats w)) * p_out)"
  by (simp add: compute_cost_def)

text \<open>
  C3. Without explicit prices, the model name \<open>gpt-4o-mini\<close> selects the prices
  \<open>(0.000165/1000, 0.00066/1000)\<close>, the name \<open>gpt-35-turbo\<close> selects
  \<open>(0.0005/1000, 0.0015/1000)\<close>, and the name \<open>foo-bar\<close> raises \<open>ValueError\<close>, the
  module's exception for an unknown model.
\<close>

theorem compute_cost_lookup:
  "compute_cost (w\<lparr>model_name := ''gpt-4o-mini''\<rparr>) None None =
     Inr (of_int (input_tokens (stats w)) * (0.000165 / 1000)
          + of_int (completion_tokens (stats w)) * (0.00066 / 1000))
   \<and> compute_cost (w\<lparr>model_name := ''gpt-35-turbo''\<rparr>) None None =
     Inr (of_int (input_tokens (stats w)) * (0.0005 / 1000)
          + of_int (completion_tokens (stats w)) * (0.0015 / 1000))
   \<and> compute_cost (w\<lparr>model_name := ''foo-bar''\<rparr>) None None =
     Inl (ValueError (unknown_model_message ''foo-bar''))"
  by (simp add: compute_cost_def starts_with_def)

text \<open>
  C4, evaluated on the code. With only the output price the assertion fails; with only the
  input price no check is made and the multiplication by \<open>None\<close> raises \<open>TypeError\<close>.
\<close>

theorem compute_cost_one_price:
  "compute_cost w None (Some p_out) = Inl AssertionError
   \<and> compute_cost w (Some p_in) None = Inl TypeError"
  by (simp add: compute_cost_def)

section \<open>Properties of the message adapters\<close>

lemma pyval_not_inside_itself: "c \<noteq> PDict [(a, b), (k, c)]"
proof
  assume "c = PDict [(a, b), (k, c)]"
  then have "size c = size (PDict [(a, b), (k, c)])"
    by simp
  then show False
    by simp
qed

text \<open>
  C8, as the claim states it, fails: the message \<open>{role: user, content: [Text(hi)]}\<close> is
  in canonical shape, and the adapter returns a different message, with the whole part
  list inside a new text part.
\<close>

theorem openai_reformat_canonical_counterexample:
  "openai_reformat_messages
     (PDict [(''role'', PStr ''user''),
             (''content'', PList [PDict [(''type'', PStr ''text''), (''text'', PStr ''hi'')]])])
   \<noteq> Inr (PDict [(''role'', PStr ''user''),
                 (''content'', PList [PDict [(''type'', PStr ''text''), (''text'', PStr ''hi'')]])])"
  by (simp add: openai_reformat_messages_def)

text \<open>
  C8, amended. For every message with a role \<open>r\<close> and a content \<open>c\<close>, in whatever shape,
  the adapter returns the message with role \<open>r\<close> whose content is the text part
  \<open>{type: text, text: c}\<close>. That content differs from \<open>c\<close>, which it contains, so the
  result is never the argument: the adapter is not a no-op on any message, canonical or
  not.
\<close>

theorem openai_reformat_wraps_content:
  assumes "subscript m ''role'' = Inr r" and "subscript m ''content'' = Inr c"
  shows "openai_reformat_messages m =
           Inr (PDict [(''role'', r),
                       (''content'', PDict [(''type'', PStr ''text''), (''text'', c)])])
         \<and> PDict [(''type'', PStr ''text''), (''text'', c)] \<noteq> c
         \<and> openai_reformat_messages m \<noteq> Inr m"
proof -
  let ?part = "PDict [(''type'', PStr ''text''), (''text'', c)]"
  let ?out = "PDict [(''role'', r), (''content'', ?part)]"
  have result: "openai_reformat_messages m = Inr ?out"
    using assms by (simp add: openai_reformat_messages_def)
  have deeper: "?part \<noteq> c"
    using pyval_not_inside_itself [of c] by metis
  have "?out \<noteq> m"
  proof
    assume same: "?out = m"
    have "subscript ?out ''content'' = Inr ?part"
      by simp
    with same assms(2) have "?part = c"
      by simp
    with deeper show False
      by simp
  qed
  with result deeper show ?thesis
    by simp
qed

theorem openai_reformat_wraps_content_witness:
  "openai_reformat_messages
     (PDict [(''role'', PStr ''assistant''),
             (''content'', PList [PDict [(''type'', PStr ''text''), (''text'', PStr ''ok'')]])])
   = Inr (PDict [(''role'', PStr ''assistant''),
                 (''content'',
                  PDict [(''type'', PStr ''text''),
                         (''text'', PList [PDict [(''type'', PStr ''text''),
                                                  (''text'', PStr ''ok'')]])])])"
  using openai_reformat_wraps_content
    [of "PDict [(''role'', PStr ''assistant''),
                (''content'', PList [PDict [(''type'', PStr ''text''), (''text'', PStr ''ok'')]])]"
        "PStr ''assistant''"
        "PList [PDict [(''type'', PStr ''text''), (''text'', PStr ''ok'')]]"]
  by simp

text \<open>
  What \<open>_ollama_reformat_messages\<close> makes of a message with one text part and one image
  part whose url is \<open>data:<mime>;base64,<payload>\<close>: five of the 22 characters cut off
  are \<open>data:\<close>, the other 17 are taken from \<open><mime>;base64,<payload>\<close>.
\<close>

lemma ollama_reformat_data_url:
  "ollama_reformat_messages
     [PDict [(''role'', r),
             (''content'',
              PList [PDict [(''type'', PStr ''text''), (''text'', t)],
                     PDict [(''type'', PStr ''image_url''),
                            (''image_url'',
                             PDict [(''url'', PStr (''data:'' @ mime @ '';base64,'' @ payload))])]])]]
   = Inr [PDict [(''role'', r), (''content'', t),
                 (''images'', PList [PStr (drop 17 (mime @ '';base64,'' @ payload))])]]"
  by (simp add: ollama_reformat_one_def part_item_def)

lemma ollama_reformat_nine_character_mime:
  assumes "length mime = 9"
  shows "drop 17 (mime @ '';base64,'' @ payload) = payload"
  using assms by simp

text \<open>
  C9, evaluated on the code. For the MIME type \<open>image/jpeg\<close> the prefix
  \<open>data:image/jpeg;base64,\<close> has 23 characters; the image handed to the local server is
  the payload \<open>AAAA\<close> with the comma of the prefix still in front.
\<close>

theorem ollama_reformat_jpeg_keeps_comma:
  "ollama_reformat_messages
     [PDict [(''role'', PStr ''user''),
             (''content'',
              PList [PDict [(''type'', PStr ''text''), (''text'', PStr ''hi'')],
                     PDict [(''type'', PStr ''image_url''),
                            (''image_url'',
                             PDict [(''url'', PStr ''data:image/jpeg;base64,AAAA'')])]])]]
   = Inr [PDict [(''role'', PStr ''user''), (''content'', PStr ''hi''),
                 (''images'', PList [PStr '',AAAA''])]]"
  by (simp add: ollama_reformat_one_def part_item_def)

section \<open>Properties of the completion log\<close>

text \<open>
  A serialized value has no newline in it: the digits, the punctuation and the escapes
  that \<open>json.dumps\<close> prints are other characters, and a newline inside a string is
  printed as a backslash and the letter \<open>n\<close>. So a log record is one line.
\<close>

lemma hex_digit_not_newline: "hex_digit n \<noteq> CHR 0x0A"
proof -
  have "hex_digit n \<in> set ''0123456789abcdef''"
    unfolding hex_digit_def by (rule nth_mem) simp
  then show ?thesis
    by auto
qed

lemma newline_not_hex_digit: "CHR 0x0A \<noteq> hex_digit n"
  using hex_digit_not_newline [of n] by (rule not_sym)

lemma str_nat_no_newline: "CHR 0x0A \<notin> set (str_nat n)"
proof (induction n rule: str_nat.induct)
  case (1 n)
  show ?case
  proof (cases "n < 10")
    case True
    then show ?thesis
      by (subst str_nat.simps) (simp add: newline_not_hex_digit)
  next
    case False
    with "1" show ?thesis
      by (subst str_nat.simps) (simp add: newline_not_hex_digit)
  qed
qed

lemma str_int_no_newline: "CHR 0x0A \<notin> set (str_int i)"
  by (simp add: str_int_def str_nat_no_newline)

lemma escape_char_no_newline: "CHR 0x0A \<notin> set (escape_char c)"
  by (simp add: escape_char_def newline_not_hex_digit)

lemma encode_basestring_no_newline: "CHR 0x0A \<notin> set (encode_basestring_ascii s)"
  by (auto simp: encode_basestring_ascii_def escape_char_no_newline)

lemma join_no_newline:
  assumes "CHR 0x0A \<notin> set sep" and "\<And>x. x \<in> set xs \<Longrightarrow> CHR 0x0A \<notin> set x"
  shows "CHR 0x0A \<notin> set (join sep xs)"
  using assms by (induction sep xs rule: join.induct) auto

lemma json_dumps_no_newline: "CHR 0x0A \<notin> set (json_dumps v)"
proof (induction v rule: json_dumps.induct)
  case (5 xs)
  have "CHR 0x0A \<notin> set (join '', '' (map json_dumps xs))"
    by (rule join_no_newline) (use "5" in auto)
  then show ?case by simp
next
  case (6 d)
  have "CHR 0x0A \<notin> set (join '', '' (map (\<lambda>kv. encode_basestring_ascii (fst kv) @ '': '' @ json_dumps (snd kv)) d))"
    by (rule join_no_newline) (use "6" encode_basestring_no_newline in auto)
  then show ?case by simp
qed (simp_all add: str_int_no_newline encode_basestring_no_newline)

lemma lines_from_one_line:
  assumes "CHR 0x0A \<notin> set l"
  shows "lines_from cur (l @ [CHR 0x0A]) = [cur @ l]"
  using assms by (induction l arbitrary: cur) auto

lemma file_lines_log_line:
  "file_lines (log_line msg_copy) = [json_dumps (PList msg_copy) @ '','']"
proof -
  have "CHR 0x0A \<notin> set (json_dumps (PList msg_copy) @ '','')"
    using json_dumps_no_newline [of "PList msg_copy"] by simp
  then have "lines_from [] ((json_dumps (PList msg_copy) @ '','') @ [CHR 0x0A])
             = [[] @ json_dumps (PList msg_copy) @ '','']"
    by (rule lines_from_one_line)
  then show ?thesis
    by (simp add: file_lines_def log_line_def)
qed

section \<open>What a call that returns has done\<close>

lemma perform_stream: "is_stream c \<Longrightarrow> fst (perform s c) = s"
  by (cases c) (simp_all add: stream_complete_def split: prod.splits sum.splits)

lemma complete_returned:
  assumes "complete create (w, fs) messages kwargs = ((w', fs'), Inr result)"
  shows "\<exists>response u c cs.
           create (model_name w) messages kwargs = Inr response
         \<and> usage response = Some u
         \<and> choices response = c # cs
         \<and> getattr (message c) ''content'' = Inr result
         \<and> w' = w\<lparr>stats := \<lparr>requests = requests (stats w) + 1,
                             input_tokens = input_tokens (stats w) + prompt_tokens u,
                             completion_tokens = completion_tokens (stats w) + usage_completion_tokens u\<rparr>\<rparr>
         \<and> fs' = (case log_file w of None \<Rightarrow> fs
                   | Some path \<Rightarrow> append_file fs path (log_line (messages @ [PDict (message c)])))"
  using assms
  by (auto simp: complete_def Let_def split: if_splits sum.splits option.splits list.splits)

lemma structured_complete_returned:
  assumes "structured_complete parse (w, fs) messages structure_class kwargs = ((w', fs'), Inr result)"
  shows "\<exists>response u c cs.
           parse (model_name w) messages structure_class = Inr response
         \<and> usage response = Some u
         \<and> choices response = c # cs
         \<and> result = PDict (message c)
         \<and> w' = w\<lparr>stats := \<lparr>requests = requests (stats w) + 1,
                             input_tokens = input_tokens (stats w) + prompt_tokens u,
                             completion_tokens = completion_tokens (stats w) + usage_completion_tokens u\<rparr>\<rparr>
         \<and> fs' = (case log_file w of None \<Rightarrow> fs
                   | Some path \<Rightarrow> append_file fs path (log_line (messages @ [PDict (message c)])))"
  using assms
  by (auto simp: structured_complete_def Let_def split: if_splits sum.splits option.splits list.splits)

lemma ollama_complete_returned:
  assumes "ollama_complete chat (w, fs) messages kwargs = ((w', fs'), Inr result)"
  shows "\<exists>ollama_messages response resp_msg n.
           ollama_reformat_messages messages = Inr ollama_messages
         \<and> chat (model_name w) ollama_messages kwargs = Inr response
         \<and> subscript response ''message'' = Inr resp_msg
         \<and> subscript resp_msg ''content'' = Inr result
         \<and> eval_count_of response = Inr n
         \<and> w' = w\<lparr>stats := \<lparr>requests = requests (stats w) + 1,
                             input_tokens = input_tokens (stats w) + n,
                             completion_tokens = completion_tokens (stats w) + n\<rparr>\<rparr>
         \<and> (case log_file w of None \<Rightarrow> fs' = fs
             | Some path \<Rightarrow> (\<exists>openai_msg. openai_reformat_messages resp_msg = Inr openai_msg
                 \<and> fs' = append_file fs path (log_line (messages @ [openai_msg]))))"
proof -
  from assms obtain ollama_messages response resp_msg v n where
    steps: "ollama_reformat_messages messages = Inr ollama_messages"
      "chat (model_name w) ollama_messages kwargs = Inr response"
      "subscript response ''message'' = Inr resp_msg"
      "subscript resp_msg ''content'' = Inr result"
      "subscript response ''eval_count'' = Inr v"
      "int_operand v = Inr n"
    and after: "w' = w\<lparr>stats := \<lparr>requests = requests (stats w) + 1,
                             input_tokens = input_tokens (stats w) + n,
                             completion_tokens = completion_tokens (stats w) + n\<rparr>\<rparr>"
      "case log_file w of None \<Rightarrow> fs' = fs
             | Some path \<Rightarrow> (\<exists>openai_msg. openai_reformat_messages resp_msg = Inr openai_msg
                 \<and> fs' = append_file fs path (log_line (messages @ [openai_msg])))"
    by (auto simp: ollama_complete_def Let_def
             split: if_splits sum.splits option.splits)
  have "eval_count_of response = Inr n"
    using steps by (simp add: eval_count_of_def)
  with steps after show ?thesis
    by blast
qed

lemma perform_model_name: "model_name (fst (fst (perform s c))) = model_name (fst s)"
  by (cases c; cases s)
     (auto simp: complete_def stream_complete_def structured_complete_def Let_def
           split: if_splits sum.splits option.splits list.splits)

lemma perform_counts:
  assumes "\<not> is_stream c" and "snd (perform s c)"
  shows "requests (stats (fst (fst (perform s c)))) = requests (stats (fst s)) + 1
       \<and> input_tokens (stats (fst (fst (perform s c))))
         = input_tokens (stats (fst s)) + reported_prompt_tokens (model_name (fst s)) c
       \<and> completion_tokens (stats (fst (fst (perform s c))))
         = completion_tokens (stats (fst s)) + reported_completion_tokens (model_name (fst s)) c"
proof (cases c)
  case (Complete create messages kwargs)
  obtain w fs where s: "s = (w, fs)"
    by (cases s)
  obtain w' fs' r where run: "complete create (w, fs) messages kwargs = ((w', fs'), r)"
    by (metis surj_pair)
  with assms(2) Complete s obtain result where "r = Inr result"
    by (cases r) (auto simp: returned_def)
  with run complete_returned [of create w fs messages kwargs w' fs' result]
  show ?thesis
    using Complete s
    by (auto simp: reported_prompt_tokens_def reported_completion_tokens_def)
next
  case (StreamComplete create messages kwargs)
  with assms(1) show ?thesis
    by simp
next
  case (StructuredComplete parse messages structure_class kwargs)
  obtain w fs where s: "s = (w, fs)"
    by (cases s)
  obtain w' fs' r where
    run: "structured_complete parse (w, fs) messages structure_class kwargs = ((w', fs'), r)"
    by (metis surj_pair)
  with assms(2) StructuredComplete s obtain result where "r = Inr result"
    by (cases r) (auto simp: returned_def)
  with run
    structured_complete_returned [of parse w fs messages structure_class kwargs w' fs' result]
  show ?thesis
    using StructuredComplete s
    by (auto simp: reported_prompt_tokens_def reported_completion_tokens_def)
qed

section \<open>Streaming calls\<close>

text \<open>
  C5. For both variants and every input, a streaming call, also one consumed to its end,
  returns the state it was given: the three counters of the wrapper are unchanged, and no
  file, so no log file either, is written, whether or not a log file is configured.
\<close>

theorem stream_complete_leaves_state:
  "fst (stream_complete create s messages kwargs) = s
   \<and> fst (ollama_stream_complete chat s messages kwargs) = s"
  by (simp add: stream_complete_def ollama_stream_complete_def split: prod.splits sum.splits)

section \<open>The log record of a completion\<close>

lemma append_file_fresh:
  assumes "fs path = None \<or> fs path = Some []"
  shows "append_file fs path txt = fs(path \<mapsto> txt)"
  using assms by (auto simp: append_file_def)

text \<open>
  C6. When a \<open>complete\<close> call has returned: without a configured log file the files are
  as before; with one that was missing or empty, the file now holds exactly one line,
  the serialization of the input messages followed by the response message, with a comma
  after it, and no other file has changed.
\<close>

theorem complete_log_contract:
  assumes "complete create (w, fs) messages kwargs = ((w', fs'), Inr result)"
  shows "(log_file w = None \<longrightarrow> fs' = fs)
       \<and> (\<forall>path. log_file w = Some path \<and> (fs path = None \<or> fs path = Some []) \<longrightarrow>
            (\<exists>response c cs txt.
               create (model_name w) messages kwargs = Inr response
             \<and> choices response = c # cs
             \<and> fs' = fs(path \<mapsto> txt)
             \<and> file_lines txt = [json_dumps (PList (messages @ [PDict (message c)])) @ '','']))"
proof -
  from complete_returned [OF assms] obtain response c cs where
    resp: "create (model_name w) messages kwargs = Inr response"
      "choices response = c # cs"
    and files: "fs' = (case log_file w of None \<Rightarrow> fs
        | Some path \<Rightarrow> append_file fs path (log_line (messages @ [PDict (message c)])))"
    by blast
  have "fs' = fs" if "log_file w = None"
    using that files by simp
  moreover have "\<exists>response c cs txt.
               create (model_name w) messages kwargs = Inr response
             \<and> choices response = c # cs
             \<and> fs' = fs(path \<mapsto> txt)
             \<and> file_lines txt = [json_dumps (PList (messages @ [PDict (message c)])) @ '','']"
    if "log_file w = Some path" and "fs path = None \<or> fs path = Some []" for path
  proof -
    have "fs' = fs(path \<mapsto> log_line (messages @ [PDict (message c)]))"
      using that files by (simp add: append_file_fresh)
    with resp file_lines_log_line [of "messages @ [PDict (message c)]"] show ?thesis
      by blast
  qed
  ultimately show ?thesis
    by blast
qed

theorem complete_log_contract_witness:
  "\<exists>txt.
     snd (fst (complete
       (\<lambda>name messages kwargs.
          Inr \<lparr>choices = [\<lparr>message = [(''content'', PStr ''hello''), (''role'', PStr ''assistant'')]\<rparr>],
               usage = Some \<lparr>prompt_tokens = 3, usage_completion_tokens = 1\<rparr>\<rparr>)
       (ModelWrapper ''gpt-4o'' (Some ''log.txt''), Map.empty)
       [PDict [(''role'', PStr ''user''), (''content'', PStr ''hi'')]] [])) ''log.txt'' = Some txt
   \<and> file_lines txt =
       [json_dumps (PList [PDict [(''role'', PStr ''user''), (''content'', PStr ''hi'')],
                           PDict [(''content'', PStr ''hello''), (''role'', PStr ''assistant'')]])
        @ '','']"
proof -
  let ?create = "\<lambda>(name :: string) (messages :: pyval list) (kwargs :: pydict).
          Inr \<lparr>choices = [\<lparr>message = [(''content'', PStr ''hello''), (''role'', PStr ''assistant'')]\<rparr>],
               usage = Some \<lparr>prompt_tokens = 3, usage_completion_tokens = 1\<rparr>\<rparr> :: error + chat_completion"
  let ?w = "ModelWrapper ''gpt-4o'' (Some ''log.txt'')"
  let ?messages = "[PDict [(''role'', PStr ''user''), (''content'', PStr ''hi'')]]"
  let ?w' = "?w\<lparr>stats := \<lparr>requests = 1, input_tokens = 3, completion_tokens = 1\<rparr>\<rparr>"
  let ?fs' = "append_file Map.empty ''log.txt''
                (log_line (?messages @ [PDict [(''content'', PStr ''hello''), (''role'', PStr ''assistant'')]]))"
  have h: "complete ?create (?w, Map.empty) ?messages [] = ((?w', ?fs'), Inr (PStr ''hello''))"
    by (simp add: complete_def ModelWrapper_def keyword_clash_def getattr_def)
  have lf: "log_file ?w = Some ''log.txt''"
    by (simp add: ModelWrapper_def)
  from complete_log_contract [OF h] lf
  have "\<exists>response c cs txt.
               ?create (model_name ?w) ?messages [] = Inr response
             \<and> choices response = c # cs
             \<and> ?fs' = Map.empty(''log.txt'' \<mapsto> txt)
             \<and> file_lines txt = [json_dumps (PList (?messages @ [PDict (message c)])) @ '','']"
    by blast
  then obtain logged where "?fs' = Map.empty(''log.txt'' \<mapsto> logged)"
    and "file_lines logged =
       [json_dumps (PList [PDict [(''role'', PStr ''user''), (''content'', PStr ''hi'')],
                           PDict [(''content'', PStr ''hello''), (''role'', PStr ''assistant'')]])
        @ '','']"
    by auto
  with h show ?thesis
    by (metis fst_conv snd_conv fun_upd_same)
qed

text \<open>
  The other two calls that log write the same kind of record: \<open>structured_complete\<close>
  with the message it returns, and \<open>complete\<close> of the local-inference wrapper with the
  answer's role and its text put into a text part.
\<close>

lemma structured_complete_log_record:
  assumes "structured_complete parse (w, fs) messages structure_class kwargs = ((w', fs'), Inr result)"
    and "log_file w = Some path" and "fs path = None \<or> fs path = Some []"
  shows "\<exists>logged. fs' = fs(path \<mapsto> logged)
           \<and> file_lines logged = [json_dumps (PList (messages @ [result])) @ '','']"
proof -
  from structured_complete_returned [OF assms(1)] obtain c :: choice where
    "result = PDict (message c)"
    "fs' = (case log_file w of None \<Rightarrow> fs
            | Some path \<Rightarrow> append_file fs path (log_line (messages @ [PDict (message c)])))"
    by blast
  with assms(2,3) have "fs' = fs(path \<mapsto> log_line (messages @ [result]))"
    by (simp add: append_file_fresh)
  with file_lines_log_line [of "messages @ [result]"] show ?thesis
    by blast
qed

lemma ollama_complete_log_record:
  assumes "ollama_complete chat (w, fs) messages kwargs = ((w', fs'), Inr result)"
    and "log_file w = Some path" and "fs path = None \<or> fs path = Some []"
  shows "\<exists>logged role. fs' = fs(path \<mapsto> logged)
           \<and> file_lines logged =
               [json_dumps (PList (messages @
                  [PDict [(''role'', role),
                          (''content'', PDict [(''type'', PStr ''text''), (''text'', result)])]]))
                @ '','']"
proof -
  from ollama_complete_returned [OF assms(1)] assms(2) obtain resp_msg openai_msg where
    content: "subscript resp_msg ''content'' = Inr result"
    and adapted: "openai_reformat_messages resp_msg = Inr openai_msg"
    and files: "fs' = append_file fs path (log_line (messages @ [openai_msg]))"
    by auto
  from adapted content obtain role where
    shape: "openai_msg = PDict [(''role'', role),
                         (''content'', PDict [(''type'', PStr ''text''), (''text'', result)])]"
    by (auto simp: openai_reformat_messages_def split: sum.splits)
  from files assms(3) have "fs' = fs(path \<mapsto> log_line (messages @ [openai_msg]))"
    by (simp add: append_file_fresh)
  with file_lines_log_line [of "messages @ [openai_msg]"] shape show ?thesis
    by blast
qed

section \<open>One completion on a hosted-API wrapper\<close>

text \<open>
  C7. On a new hosted-API wrapper (any model name and log file), \<open>complete\<close> with the
  message \<open>{role: user, content: [Text(hi)]}\<close>, against a backend that answers with the
  content \<open>hello\<close> and the usage \<open>{prompt_tokens: 3, completion_tokens: 1}\<close>, returns
  \<open>hello\<close> and leaves the counters at one request, three input tokens and one completion
  token.
\<close>

theorem complete_scenario:
  "snd (complete
          (\<lambda>name messages kwargs.
             Inr \<lparr>choices = [\<lparr>message = [(''content'', PStr ''hello''), (''role'', PStr ''assistant'')]\<rparr>],
                  usage = Some \<lparr>prompt_tokens = 3, usage_completion_tokens = 1\<rparr>\<rparr>)
          (OpenAIModelWrapper name lf, fs)
          [PDict [(''role'', PStr ''user''),
                  (''content'', PList [PDict [(''type'', PStr ''text''), (''text'', PStr ''hi'')]])]]
          [])
     = Inr (PStr ''hello'')
   \<and> stats (fst (fst (complete
          (\<lambda>name messages kwargs.
             Inr \<lparr>choices = [\<lparr>message = [(''content'', PStr ''hello''), (''role'', PStr ''assistant'')]\<rparr>],
                  usage = Some \<lparr>prompt_tokens = 3, usage_completion_tokens = 1\<rparr>\<rparr>)
          (OpenAIModelWrapper name lf, fs)
          [PDict [(''role'', PStr ''user''),
                  (''content'', PList [PDict [(''type'', PStr ''text''), (''text'', PStr ''hi'')]])]]
          [])))
     = \<lparr>requests = 1, input_tokens = 3, completion_tokens = 1\<rparr>"
  by (cases lf)
     (simp_all add: complete_def OpenAIModelWrapper_def ModelWrapper_def keyword_clash_def
        getattr_def)

section \<open>Token counts of the local-inference wrapper\<close>

text \<open>
  C10. When \<open>complete\<close> of the local-inference wrapper has returned, the answer had an
  integer \<open>eval_count\<close>, and both \<open>input_tokens\<close> and \<open>completion_tokens\<close> have grown by
  exactly that number; the count of prompt tokens in the answer plays no part.
\<close>

theorem ollama_complete_counts_eval_count:
  assumes "ollama_complete chat (w, fs) messages kwargs = ((w', fs'), Inr result)"
  shows "\<exists>ollama_messages response n.
           ollama_reformat_messages messages = Inr ollama_messages
         \<and> chat (model_name w) ollama_messages kwargs = Inr response
         \<and> eval_count_of response = Inr n
         \<and> input_tokens (stats w') = input_tokens (stats w) + n
         \<and> completion_tokens (stats w') = completion_tokens (stats w) + n"
proof -
  from ollama_complete_returned [OF assms] obtain ollama_messages response n where
    "ollama_reformat_messages messages = Inr ollama_messages"
    "chat (model_name w) ollama_messages kwargs = Inr response"
    "eval_count_of response = Inr n"
    "w' = w\<lparr>stats := \<lparr>requests = requests (stats w) + 1,
                        input_tokens = input_tokens (stats w) + n,
                        completion_tokens = completion_tokens (stats w) + n\<rparr>\<rparr>"
    by blast
  then show ?thesis
    by auto
qed

theorem ollama_complete_counts_eval_count_witness:
  "ollama_complete
     (\<lambda>name messages kwargs.
        Inr (PDict [(''message'', PDict [(''role'', PStr ''assistant''), (''content'', PStr ''hello'')]),
                    (''prompt_eval_count'', PInt 7), (''eval_count'', PInt 2)]))
     (OllamaModelWrapper ''minicpm-v'' None, Map.empty)
     [PDict [(''role'', PStr ''user''),
             (''content'', PList [PDict [(''type'', PStr ''text''), (''text'', PStr ''hi'')]])]] []
   = ((\<lparr>model_name = ''minicpm-v'', log_file = None,
        stats = \<lparr>requests = 1, input_tokens = 2, completion_tokens = 2\<rparr>\<rparr>, Map.empty),
      Inr (PStr ''hello''))
   \<and> (\<exists>n. eval_count_of
              (PDict [(''message'', PDict [(''role'', PStr ''assistant''), (''content'', PStr ''hello'')]),
                      (''prompt_eval_count'', PInt 7), (''eval_count'', PInt 2)]) = Inr n
          \<and> (2 :: int) = 0 + n)"
proof -
  let ?chat = "\<lambda>(name :: string) (messages :: pyval list) (kwargs :: pydict).
        Inr (PDict [(''message'', PDict [(''role'', PStr ''assistant''), (''content'', PStr ''hello'')]),
                    (''prompt_eval_count'', PInt 7), (''eval_count'', PInt 2)]) :: error + pyval"
  let ?messages = "[PDict [(''role'', PStr ''user''),
             (''content'', PList [PDict [(''type'', PStr ''text''), (''text'', PStr ''hi'')]])]]"
  let ?w' = "\<lparr>model_name = ''minicpm-v'', log_file = None,
        stats = \<lparr>requests = 1, input_tokens = 2, completion_tokens = 2\<rparr>\<rparr>"
  have h: "ollama_complete ?chat (OllamaModelWrapper ''minicpm-v'' None, Map.empty) ?messages []
           = ((?w', Map.empty), Inr (PStr ''hello''))"
    by (simp add: ollama_complete_def OllamaModelWrapper_def ModelWrapper_def
          ollama_reformat_one_def part_item_def keyword_clash_def)
  from ollama_complete_counts_eval_count [OF h]
  have "\<exists>n. eval_count_of
              (PDict [(''message'', PDict [(''role'', PStr ''assistant''), (''content'', PStr ''hello'')]),
                      (''prompt_eval_count'', PInt 7), (''eval_count'', PInt 2)]) = Inr n
          \<and> input_tokens (stats ?w')
              = input_tokens (stats (OllamaModelWrapper ''minicpm-v'' None)) + n"
    by auto
  then have "\<exists>n. eval_count_of
              (PDict [(''message'', PDict [(''role'', PStr ''assistant''), (''content'', PStr ''hello'')]),
                      (''prompt_eval_count'', PInt 7), (''eval_count'', PInt 2)]) = Inr n
          \<and> (2 :: int) = 0 + n"
    by (simp add: OllamaModelWrapper_def ModelWrapper_def)
  with h show ?thesis
    by blast
qed

section \<open>Usage after a sequence of calls\<close>

lemma ollama_perform_stream: "ollama_is_stream c \<Longrightarrow> fst (ollama_perform s c) = s"
  by (cases c)
     (simp_all add: ollama_stream_complete_def split: prod.splits sum.splits)

lemma ollama_perform_model_name:
  "model_name (fst (fst (ollama_perform s c))) = model_name (fst s)"
  by (cases c; cases s)
     (auto simp: ollama_complete_def ollama_stream_complete_def ollama_structured_complete_def
           Let_def
           split: if_splits sum.splits option.splits prod.splits)

lemma ollama_perform_counts:
  assumes "\<not> ollama_is_stream c" and "snd (ollama_perform s c)"
  shows "requests (stats (fst (fst (ollama_perform s c)))) = requests (stats (fst s)) + 1
       \<and> input_tokens (stats (fst (fst (ollama_perform s c))))
         = input_tokens (stats (fst s)) + reported_eval_count (model_name (fst s)) c
       \<and> completion_tokens (stats (fst (fst (ollama_perform s c))))
         = completion_tokens (stats (fst s)) + reported_eval_count (model_name (fst s)) c"
proof (cases c)
  case (OllamaComplete chat messages kwargs)
  obtain w fs where s: "s = (w, fs)"
    by (cases s)
  obtain w' fs' r where run: "ollama_complete chat (w, fs) messages kwargs = ((w', fs'), r)"
    by (metis surj_pair)
  with assms(2) OllamaComplete s obtain result where "r = Inr result"
    by (cases r) (auto simp: returned_def)
  with run ollama_complete_returned [of chat w fs messages kwargs w' fs' result]
  show ?thesis
    using OllamaComplete s by auto
next
  case (OllamaStreamComplete chat messages kwargs)
  with assms(1) show ?thesis
    by simp
next
  case (OllamaStructuredComplete messages structure_class kwargs)
  with assms(2) show ?thesis
    by (simp add: ollama_structured_complete_def returned_def)
qed

lemma run_stats:
  assumes "all_returned s cs"
  shows "requests (stats (fst (run s cs)))
         = requests (stats (fst s)) + int (length (filter (\<lambda>c. \<not> is_stream c) cs))
       \<and> input_tokens (stats (fst (run s cs)))
         = input_tokens (stats (fst s)) + sum_list (map (reported_prompt_tokens (model_name (fst s))) cs)
       \<and> completion_tokens (stats (fst (run s cs)))
         = completion_tokens (stats (fst s))
           + sum_list (map (reported_completion_tokens (model_name (fst s))) cs)"
  using assms
proof (induction cs arbitrary: s)
  case Nil
  then show ?case
    by simp
next
  case (Cons c cs)
  let ?s' = "fst (perform s c)"
  from Cons.prems have rest: "all_returned ?s' cs" and this_call: "is_stream c \<or> snd (perform s c)"
    by simp_all
  have name: "model_name (fst ?s') = model_name (fst s)"
    by (rule perform_model_name)
  note ih = Cons.IH [OF rest, unfolded name]
  show ?case
  proof (cases "is_stream c")
    case True
    then have same: "?s' = s"
      by (rule perform_stream)
    from True have "reported_prompt_tokens (model_name (fst s)) c = 0"
      and "reported_completion_tokens (model_name (fst s)) c = 0"
      by (cases c; simp add: reported_prompt_tokens_def reported_completion_tokens_def)+
    with ih same True show ?thesis
      by simp
  next
    case False
    with this_call have ret: "snd (perform s c)"
      by simp
    from perform_counts [OF False ret] ih False show ?thesis
      by simp
  qed
qed

lemma ollama_run_stats:
  assumes "ollama_all_returned s cs"
  shows "requests (stats (fst (ollama_run s cs)))
         = requests (stats (fst s)) + int (length (filter (\<lambda>c. \<not> ollama_is_stream c) cs))
       \<and> input_tokens (stats (fst (ollama_run s cs)))
         = input_tokens (stats (fst s)) + sum_list (map (reported_eval_count (model_name (fst s))) cs)
       \<and> completion_tokens (stats (fst (ollama_run s cs)))
         = completion_tokens (stats (fst s))
           + sum_list (map (reported_eval_count (model_name (fst s))) cs)"
  using assms
proof (induction cs arbitrary: s)
  case Nil
  then show ?case
    by simp
next
  case (Cons c cs)
  let ?s' = "fst (ollama_perform s c)"
  from Cons.prems have rest: "ollama_all_returned ?s' cs"
    and this_call: "ollama_is_stream c \<or> snd (ollama_perform s c)"
    by simp_all
  have name: "model_name (fst ?s') = model_name (fst s)"
    by (rule ollama_perform_model_name)
  note ih = Cons.IH [OF rest, unfolded name]
  show ?case
  proof (cases "ollama_is_stream c")
    case True
    then have same: "?s' = s"
      by (rule ollama_perform_stream)
    from True have "reported_eval_count (model_name (fst s)) c = 0"
      by (cases c) simp_all
    with ih same True show ?thesis
      by simp
  next
    case False
    with this_call have ret: "snd (ollama_perform s c)"
      by simp
    from ollama_perform_counts [OF False ret] ih False show ?thesis
      by simp
  qed
qed

lemma stats_dict_eqI:
  assumes "requests st = a" and "input_tokens st = b" and "completion_tokens st = c"
  shows "st = \<lparr>requests = a, input_tokens = b, completion_tokens = c\<rparr>"
  using assms by (cases st) simp

text \<open>
  C1. On a new wrapper, after a sequence of calls in which every \<open>complete\<close> and
  \<open>structured_complete\<close> call has returned, together with any streaming calls:
  \<open>requests\<close> is the number of the calls that are not streaming calls, and each token
  counter is the sum, over the calls, of the count the backend reported at that call. For
  the hosted-API and the gateway wrapper these are \<open>usage.prompt_tokens\<close> for
  \<open>input_tokens\<close> and \<open>usage.completion_tokens\<close> for \<open>completion_tokens\<close>; for the
  local-inference wrapper the one count read, \<open>eval_count\<close>, goes into both.
\<close>

theorem usage_after_calls:
  "(all_returned (ModelWrapper name lf, fs) cs \<longrightarrow>
      stats (fst (run (ModelWrapper name lf, fs) cs))
      = \<lparr>requests = int (length (filter (\<lambda>c. \<not> is_stream c) cs)),
         input_tokens = sum_list (map (reported_prompt_tokens name) cs),
         completion_tokens = sum_list (map (reported_completion_tokens name) cs)\<rparr>)
   \<and> (ollama_all_returned (ModelWrapper name lf, fs) ocs \<longrightarrow>
      stats (fst (ollama_run (ModelWrapper name lf, fs) ocs))
      = \<lparr>requests = int (length (filter (\<lambda>c. \<not> ollama_is_stream c) ocs)),
         input_tokens = sum_list (map (reported_eval_count name) ocs),
         completion_tokens = sum_list (map (reported_eval_count name) ocs)\<rparr>)"
proof (intro conjI impI)
  assume "all_returned (ModelWrapper name lf, fs) cs"
  from run_stats [OF this]
  show "stats (fst (run (ModelWrapper name lf, fs) cs))
      = \<lparr>requests = int (length (filter (\<lambda>c. \<not> is_stream c) cs)),
         input_tokens = sum_list (map (reported_prompt_tokens name) cs),
         completion_tokens = sum_list (map (reported_completion_tokens name) cs)\<rparr>"
    by (intro stats_dict_eqI) (simp_all add: ModelWrapper_def)
next
  assume "ollama_all_returned (ModelWrapper name lf, fs) ocs"
  from ollama_run_stats [OF this]
  show "stats (fst (ollama_run (ModelWrapper name lf, fs) ocs))
      = \<lparr>requests = int (length (filter (\<lambda>c. \<not> ollama_is_stream c) ocs)),
         input_tokens = sum_list (map (reported_eval_count name) ocs),
         completion_tokens = sum_list (map (reported_eval_count name) ocs)\<rparr>"
    by (intro stats_dict_eqI) (simp_all add: ModelWrapper_def)
qed

theorem usage_after_calls_witness:
  "all_returned (ModelWrapper ''gpt-4o'' None, Map.empty)
     [Complete (\<lambda>name messages kwargs.
          Inr \<lparr>choices = [\<lparr>message = [(''content'', PStr ''hello'')]\<rparr>],
               usage = Some \<lparr>prompt_tokens = 3, usage_completion_tokens = 1\<rparr>\<rparr>) [PDict [(''role'', PStr ''user''), (''content'', PList [PDict [(''type'', PStr ''text''), (''text'', PStr ''hi'')]])]] [],
      StreamComplete (\<lambda>name messages kwargs. Inr []) [PDict [(''role'', PStr ''user''), (''content'', PList [PDict [(''type'', PStr ''text''), (''text'', PStr ''hi'')]])]] [],
      StructuredComplete (\<lambda>name messages structure_class.
          Inr \<lparr>choices = [\<lparr>message = [(''content'', PStr ''{}'')]\<rparr>],
               usage = Some \<lparr>prompt_tokens = 5, usage_completion_tokens = 2\<rparr>\<rparr>) [PDict [(''role'', PStr ''user''), (''content'', PList [PDict [(''type'', PStr ''text''), (''text'', PStr ''hi'')]])]] ''Answer'' []]
   \<and> stats (fst (run (ModelWrapper ''gpt-4o'' None, Map.empty)
     [Complete (\<lambda>name messages kwargs.
          Inr \<lparr>choices = [\<lparr>message = [(''content'', PStr ''hello'')]\<rparr>],
               usage = Some \<lparr>prompt_tokens = 3, usage_completion_tokens = 1\<rparr>\<rparr>) [PDict [(''role'', PStr ''user''), (''content'', PList [PDict [(''type'', PStr ''text''), (''text'', PStr ''hi'')]])]] [],
      StreamComplete (\<lambda>name messages kwargs. Inr []) [PDict [(''role'', PStr ''user''), (''content'', PList [PDict [(''type'', PStr ''text''), (''text'', PStr ''hi'')]])]] [],
      StructuredComplete (\<lambda>name messages structure_class.
          Inr \<lparr>choices = [\<lparr>message = [(''content'', PStr ''{}'')]\<rparr>],
               usage = Some \<lparr>prompt_tokens = 5, usage_completion_tokens = 2\<rparr>\<rparr>) [PDict [(''role'', PStr ''user''), (''content'', PList [PDict [(''type'', PStr ''text''), (''text'', PStr ''hi'')]])]] ''Answer'' []]))
     = \<lparr>requests = 2, input_tokens = 8, completion_tokens = 3\<rparr>
   \<and> ollama_all_returned (ModelWrapper ''gpt-4o'' None, Map.empty)
     [OllamaComplete (\<lambda>name messages kwargs.
          Inr (PDict [(''message'', PDict [(''role'', PStr ''assistant''), (''content'', PStr ''hello'')]),
                      (''prompt_eval_count'', PInt 7), (''eval_count'', PInt 2)])) [PDict [(''role'', PStr ''user''), (''content'', PList [PDict [(''type'', PStr ''text''), (''text'', PStr ''hi'')]])]] [],
      OllamaStreamComplete (\<lambda>name messages kwargs. Inr []) [PDict [(''role'', PStr ''user''), (''content'', PList [PDict [(''type'', PStr ''text''), (''text'', PStr ''hi'')]])]] []]
   \<and> stats (fst (ollama_run (ModelWrapper ''gpt-4o'' None, Map.empty)
     [OllamaComplete (\<lambda>name messages kwargs.
          Inr (PDict [(''message'', PDict [(''role'', PStr ''assistant''), (''content'', PStr ''hello'')]),
                      (''prompt_eval_count'', PInt 7), (''eval_count'', PInt 2)])) [PDict [(''role'', PStr ''user''), (''content'', PList [PDict [(''type'', PStr ''text''), (''text'', PStr ''hi'')]])]] [],
      OllamaStreamComplete (\<lambda>name messages kwargs. Inr []) [PDict [(''role'', PStr ''user''), (''content'', PList [PDict [(''type'', PStr ''text''), (''text'', PStr ''hi'')]])]] []]))
     = \<lparr>requests = 1, input_tokens = 2, completion_tokens = 2\<rparr>"
proof -
  let ?s = "(ModelWrapper ''gpt-4o'' None, Map.empty :: filesystem)"
  let ?cs = "[Complete (\<lambda>name messages kwargs.
          Inr \<lparr>choices = [\<lparr>message = [(''content'', PStr ''hello'')]\<rparr>],
               usage = Some \<lparr>prompt_tokens = 3, usage_completion_tokens = 1\<rparr>\<rparr>) [PDict [(''role'', PStr ''user''), (''content'', PList [PDict [(''type'', PStr ''text''), (''text'', PStr ''hi'')]])]] [],
      StreamComplete (\<lambda>name messages kwargs. Inr []) [PDict [(''role'', PStr ''user''), (''content'', PList [PDict [(''type'', PStr ''text''), (''text'', PStr ''hi'')]])]] [],
      StructuredComplete (\<lambda>name messages structure_class.
          Inr \<lparr>choices = [\<lparr>message = [(''content'', PStr ''{}'')]\<rparr>],
               usage = Some \<lparr>prompt_tokens = 5, usage_completion_tokens = 2\<rparr>\<rparr>) [PDict [(''role'', PStr ''user''), (''content'', PList [PDict [(''type'', PStr ''text''), (''text'', PStr ''hi'')]])]] ''Answer'' []]"
  let ?ocs = "[OllamaComplete (\<lambda>name messages kwargs.
          Inr (PDict [(''message'', PDict [(''role'', PStr ''assistant''), (''content'', PStr ''hello'')]),
                      (''prompt_eval_count'', PInt 7), (''eval_count'', PInt 2)])) [PDict [(''role'', PStr ''user''), (''content'', PList [PDict [(''type'', PStr ''text''), (''text'', PStr ''hi'')]])]] [],
      OllamaStreamComplete (\<lambda>name messages kwargs. Inr []) [PDict [(''role'', PStr ''user''), (''content'', PList [PDict [(''type'', PStr ''text''), (''text'', PStr ''hi'')]])]] []]"
  have h1: "all_returned ?s ?cs"
    by (simp add: complete_def stream_complete_def structured_complete_def ModelWrapper_def
          keyword_clash_def getattr_def returned_def)
  have h2: "ollama_all_returned ?s ?ocs"
    by (simp add: ollama_complete_def ollama_stream_complete_def ModelWrapper_def
          ollama_reformat_one_def part_item_def keyword_clash_def returned_def)
  from usage_after_calls [of "''gpt-4o''" None Map.empty ?cs ?ocs] h1 h2
  show ?thesis
    by (simp add: reported_prompt_tokens_def reported_completion_tokens_def eval_count_of_def
          ollama_reformat_one_def part_item_def)
qed

end
